theory Spec2Isabelle
  imports Main "HOL-Library.Word"
begin

section \<open>The C++ vocabulary the wrapper is written in\<close>

text \<open>
  The header \<^verbatim>\<open>cpp-tree-sitter.hpp\<close> wraps the C interface of a parsing engine in the
  classes \<^verbatim>\<open>language\<close>, \<^verbatim>\<open>node\<close>, \<^verbatim>\<open>tree\<close>, \<^verbatim>\<open>parser\<close> and \<^verbatim>\<open>cursor\<close>. Its member
  functions are short: each marshals its arguments, calls one engine function and wraps
  the answer. What can go wrong in a member function is made a value here: undefined
  behaviour (a violated precondition of the standard library) and the exception
  \<^verbatim>\<open>std::out_of_range\<close>.
\<close>

datatype fault = Undefined_behaviour | Out_of_range

text \<open>
  A \<^verbatim>\<open>std::string_view\<close> is the sequence of bytes it views. \<^verbatim>\<open>symbol\<close> is
  \<^verbatim>\<open>uint16_t\<close>; lengths and byte offsets handed to and from the engine are
  \<^verbatim>\<open>uint32_t\<close>; \<^verbatim>\<open>size_t\<close> values are natural numbers.
\<close>

type_synonym string_view = string
type_synonym symbol = "16 word"
type_synonym uint32_t = "32 word"

text \<open>
  \<^verbatim>\<open>&sv.front()\<close>: \<^verbatim>\<open>front()\<close> has the precondition \<^verbatim>\<open>!empty()\<close>; on a non-empty
  view it is a reference to the first byte, whose address is the start of the viewed bytes.
\<close>

definition front_address :: "string_view \<Rightarrow> fault + string" where
  "front_address sv = (if sv = [] then Inl Undefined_behaviour else Inr sv)"

text \<open>\<^verbatim>\<open>static_cast<uint32_t>(sv.size())\<close>: the size, reduced modulo \<open>2 ^ 32\<close>.\<close>

definition static_cast_uint32 :: "nat \<Rightarrow> uint32_t" where
  "static_cast_uint32 n = of_nat n"

text \<open>
  \<^verbatim>\<open>sv.substr(pos, n)\<close>: throws \<^verbatim>\<open>std::out_of_range\<close> when \<^verbatim>\<open>pos > size()\<close>; otherwise
  the view of \<^verbatim>\<open>min(n, size() - pos)\<close> bytes from \<^verbatim>\<open>pos\<close> on.
\<close>

definition substr :: "string_view \<Rightarrow> nat \<Rightarrow> nat \<Rightarrow> fault + string_view" where
  "substr sv pos n =
     (if pos > length sv then Inl Out_of_range
      else Inr (take (min n (length sv - pos)) (drop pos sv)))"

text \<open>
  The converting constructor \<^verbatim>\<open>std::string_view(const char *)\<close>, which the compiler
  inserts where a member function returns an engine \<^verbatim>\<open>const char *\<close> as a
  \<^verbatim>\<open>std::string_view\<close>. A C string pointer is \<open>None\<close> when null, else the bytes before
  the terminator. The constructor measures the string from the pointer on; for a
  null pointer that is undefined behaviour.
\<close>

definition string_view_of_c_str :: "string option \<Rightarrow> fault + string_view" where
  "string_view_of_c_str p =
     (case p of None \<Rightarrow> Inl Undefined_behaviour | Some s \<Rightarrow> Inr s)"

section \<open>The engine interface\<close>

text \<open>
  The engine functions (\<^verbatim>\<open>tree_sitter/api.h\<close>) are not part of the wrapper. They are a
  parameter of the model: a record of the functions the modelled member functions call,
  over the engine's own handle types \<open>'l\<close> (\<^verbatim>\<open>TSLanguage const *\<close>), \<open>'n\<close>
  (\<^verbatim>\<open>TSNode\<close>), \<open>'t\<close> (a non-null \<^verbatim>\<open>TSTree *\<close>) and \<open>'p\<close> (\<^verbatim>\<open>TSParser *\<close>). A string
  argument is a pointer and a length, as in C; a pointer the engine may return null is
  an \<open>option\<close>.
\<close>

record ('l, 'n, 't, 'p) engine =
  ts_language_symbol_for_name :: "'l \<Rightarrow> string \<Rightarrow> uint32_t \<Rightarrow> bool \<Rightarrow> symbol"
  ts_node_has_error :: "'n \<Rightarrow> bool"
  ts_node_field_name_for_child :: "'n \<Rightarrow> uint32_t \<Rightarrow> string option"
  ts_node_child_by_field_name :: "'n \<Rightarrow> string \<Rightarrow> uint32_t \<Rightarrow> 'n"
  ts_node_start_byte :: "'n \<Rightarrow> uint32_t"
  ts_node_end_byte :: "'n \<Rightarrow> uint32_t"
  ts_tree_root_node :: "'t \<Rightarrow> 'n"
  ts_parser_parse_string :: "'p \<Rightarrow> 't option \<Rightarrow> string \<Rightarrow> uint32_t \<Rightarrow> 't option"

section \<open>The wrapper classes\<close>

record 'a extent =
  start :: 'a
  finish :: 'a

record 'l language =
  impl :: 'l

record 'n node =
  impl :: 'n

text \<open>
  \<^verbatim>\<open>tree::impl\<close> is a \<^verbatim>\<open>std::unique_ptr<TSTree, decltype(&ts_tree_delete)>\<close>: the
  pointer it holds may be null.
\<close>

record 't tree =
  impl :: "'t option"

record 'p parser =
  impl :: 'p

subsection \<open>language\<close>

definition language_get_symbol_for_name ::
  "('l, 'n, 't, 'p) engine \<Rightarrow> 'l language \<Rightarrow> string_view \<Rightarrow> bool \<Rightarrow> fault + symbol" where
  "language_get_symbol_for_name E self name isNamed =
     (case front_address name of
        Inl f \<Rightarrow> Inl f
      | Inr p \<Rightarrow>
          Inr (ts_language_symbol_for_name E (language.impl self) p
                 (static_cast_uint32 (length name)) isNamed))"

subsection \<open>node\<close>

definition node_has_error :: "('l, 'n, 't, 'p) engine \<Rightarrow> 'n node \<Rightarrow> bool" where
  "node_has_error E self = ts_node_has_error E (node.impl self)"

definition node_get_field_name_for_child ::
  "('l, 'n, 't, 'p) engine \<Rightarrow> 'n node \<Rightarrow> uint32_t \<Rightarrow> fault + string_view" where
  "node_get_field_name_for_child E self child_position =
     string_view_of_c_str (ts_node_field_name_for_child E (node.impl self) child_position)"

definition node_get_child_by_field_name ::
  "('l, 'n, 't, 'p) engine \<Rightarrow> 'n node \<Rightarrow> string_view \<Rightarrow> fault + 'n node" where
  "node_get_child_by_field_name E self name =
     (case front_address name of
        Inl f \<Rightarrow> Inl f
      | Inr p \<Rightarrow>
          Inr \<lparr>node.impl = ts_node_child_by_field_name E (node.impl self) p
                 (static_cast_uint32 (length name))\<rparr>)"

definition node_get_byte_range :: "('l, 'n, 't, 'p) engine \<Rightarrow> 'n node \<Rightarrow> uint32_t extent" where
  "node_get_byte_range E self =
     \<lparr>start = ts_node_start_byte E (node.impl self),
      finish = ts_node_end_byte E (node.impl self)\<rparr>"

text \<open>
  The two \<^verbatim>\<open>uint32_t\<close> arguments of \<^verbatim>\<open>substr\<close> are converted to \<^verbatim>\<open>size_t\<close>; the
  second is the difference computed in \<^verbatim>\<open>uint32_t\<close>, which wraps.
\<close>

definition node_get_source_range ::
  "('l, 'n, 't, 'p) engine \<Rightarrow> 'n node \<Rightarrow> string_view \<Rightarrow> fault + string_view" where
  "node_get_source_range E self source =
     (let extents = node_get_byte_range E self
      in substr source (unat (start extents)) (unat (finish extents - start extents)))"

subsection \<open>tree\<close>

text \<open>
  \<^verbatim>\<open>ts_tree_root_node(impl.get())\<close> reads the tree behind the pointer: with a null
  pointer the call is undefined behaviour.
\<close>

definition tree_get_root_node :: "('l, 'n, 't, 'p) engine \<Rightarrow> 't tree \<Rightarrow> fault + 'n node" where
  "tree_get_root_node E self =
     (case tree.impl self of
        None \<Rightarrow> Inl Undefined_behaviour
      | Some t \<Rightarrow> Inr \<lparr>node.impl = ts_tree_root_node E t\<rparr>)"

definition tree_has_error :: "('l, 'n, 't, 'p) engine \<Rightarrow> 't tree \<Rightarrow> fault + bool" where
  "tree_has_error E self =
     (case tree_get_root_node E self of
        Inl f \<Rightarrow> Inl f
      | Inr root \<Rightarrow> Inr (node_has_error E root))"

subsection \<open>parser\<close>

text \<open>
  The returned \<^verbatim>\<open>TSTree *\<close> is converted to a \<^verbatim>\<open>tree\<close> by the constructor
  \<^verbatim>\<open>tree(TSTree *)\<close>, whatever the pointer is.
\<close>

definition parser_parse_string ::
  "('l, 'n, 't, 'p) engine \<Rightarrow> 'p parser \<Rightarrow> string_view \<Rightarrow> fault + 't tree" where
  "parser_parse_string E self buffer =
     (case front_address buffer of
        Inl f \<Rightarrow> Inl f
      | Inr p \<Rightarrow>
          Inr \<lparr>tree.impl = ts_parser_parse_string E (parser.impl self) None p
                 (static_cast_uint32 (length buffer))\<rparr>)"

section \<open>An engine to evaluate the wrapper on\<close>

text \<open>
  A small instance of the engine interface, used where a statement is evaluated on
  concrete data. A tree handle is the number of bytes the parser was given, its root
  node spans exactly those bytes, and a node handle is its byte range. No node has a
  field, an error or a child.
\<close>

definition flat_engine :: "(unit, uint32_t \<times> uint32_t, uint32_t, unit) engine" where
  "flat_engine =
     \<lparr>ts_language_symbol_for_name = (\<lambda>l p n b. 0),
      ts_node_has_error = (\<lambda>n. False),
      ts_node_field_name_for_child = (\<lambda>n i. None),
      ts_node_child_by_field_name = (\<lambda>n p len. (0, 0)),
      ts_node_start_byte = fst,
      ts_node_end_byte = snd,
      ts_tree_root_node = (\<lambda>t. (0, t)),
      ts_parser_parse_string = (\<lambda>p old s len. Some len)\<rparr>"

section \<open>Ownership of engine trees\<close>

















section \<open>The cursor\<close>

subsection \<open>The engine's cursor, from the specification\<close>

text \<open>
  \<^verbatim>\<open>class cursor\<close> forwards every call to the engine's \<^verbatim>\<open>ts_tree_cursor_*\<close> functions,
  which are not among the sources. They are modelled here from the specification's
  description of a cursor (sections 3, 4.5 and 9): a current position and a stack of
  visited ancestors, seeded at a node, mutated in place by every navigation call.
\<close>

text \<open>
  Modelled from the spec: the engine's tree storage, which is missing from the sources,
  as far as a cursor walks it: a subtree has a type name and children ("indexed
  \<^verbatim>\<open>child(i)\<close> over all children").
\<close>

datatype subtree = Subtree (kind: string) (children: "subtree list")

text \<open>
  Modelled from the spec: the subtree at a position of a tree, the position given as the
  path of child indices from the tree's root; \<open>None\<close> where the path leaves the tree.
\<close>

fun subtree_at :: "subtree \<Rightarrow> nat list \<Rightarrow> subtree option" where
  "subtree_at t [] = Some t"
| "subtree_at t (i # p) =
     (if i < length (children t) then subtree_at (children t ! i) p else None)"

text \<open>
  Modelled from the spec: the engine's \<^verbatim>\<open>TSNode\<close>, "a position within a tree": the tree
  and the path to the position.
\<close>

record ts_node =
  root :: subtree
  path :: "nat list"

text \<open>Modelled from the spec: \<^verbatim>\<open>ts_node_child_count\<close>, the number of all children.\<close>

definition ts_node_child_count :: "ts_node \<Rightarrow> nat" where
  "ts_node_child_count n =
     (case subtree_at (root n) (path n) of None \<Rightarrow> 0 | Some t \<Rightarrow> length (children t))"

text \<open>
  Modelled from the spec: the traversal state of a cursor, "the moral equivalent of a
  stack of visited ancestors plus a current node". The states of all cursors live in the
  engine's memory; a \<^verbatim>\<open>TSTreeCursor\<close> is the address of one of them. Calling the engine
  with an address that holds no cursor is undefined behaviour.
\<close>

record position =
  current :: ts_node
  ancestors :: "ts_node list"

type_synonym TSTreeCursor = nat
type_synonym cursor_memory = "position list"

text \<open>
  Modelled from the spec: \<^verbatim>\<open>ts_tree_cursor_new\<close>, "created from a Node (captures that
  subtree's root as the start position)".
\<close>

definition ts_tree_cursor_new :: "ts_node \<Rightarrow> cursor_memory \<Rightarrow> TSTreeCursor \<times> cursor_memory" where
  "ts_tree_cursor_new n m = (length m, m @ [\<lparr>current = n, ancestors = []\<rparr>])"

text \<open>
  Modelled from the spec: \<^verbatim>\<open>ts_tree_cursor_copy\<close>, "explicit deep copy of traversal
  state", which "duplicates internal position-stack state": the copy is a new state in
  memory, equal to the original's.
\<close>

definition ts_tree_cursor_copy ::
  "TSTreeCursor \<Rightarrow> cursor_memory \<Rightarrow> fault + TSTreeCursor \<times> cursor_memory" where
  "ts_tree_cursor_copy c m =
     (if c < length m then Inr (length m, m @ [m ! c]) else Inl Undefined_behaviour)"

text \<open>
  Modelled from the spec: \<^verbatim>\<open>ts_tree_cursor_reset\<close>, "re-seed the cursor at an arbitrary
  node, discarding prior position/ancestor-stack state".
\<close>

definition ts_tree_cursor_reset ::
  "TSTreeCursor \<Rightarrow> ts_node \<Rightarrow> cursor_memory \<Rightarrow> fault + cursor_memory" where
  "ts_tree_cursor_reset c n m =
     (if c < length m then Inr (m[c := \<lparr>current = n, ancestors = []\<rparr>])
      else Inl Undefined_behaviour)"

text \<open>Modelled from the spec: \<^verbatim>\<open>ts_tree_cursor_current_node\<close>, "read current position".\<close>

definition ts_tree_cursor_current_node :: "TSTreeCursor \<Rightarrow> cursor_memory \<Rightarrow> fault + ts_node" where
  "ts_tree_cursor_current_node c m =
     (if c < length m then Inr (current (m ! c)) else Inl Undefined_behaviour)"

text \<open>
  Modelled from the spec: \<^verbatim>\<open>ts_tree_cursor_goto_parent\<close>, "move to parent of current
  position; returns false and leaves position unchanged if already at the traversal root
  the cursor was seeded/reset to". The parent is the ancestor on top of the stack.
\<close>

definition ts_tree_cursor_goto_parent ::
  "TSTreeCursor \<Rightarrow> cursor_memory \<Rightarrow> fault + bool \<times> cursor_memory" where
  "ts_tree_cursor_goto_parent c m =
     (if c < length m
      then (case ancestors (m ! c) of
              [] \<Rightarrow> Inr (False, m)
            | a # as \<Rightarrow> Inr (True, m[c := \<lparr>current = a, ancestors = as\<rparr>]))
      else Inl Undefined_behaviour)"

text \<open>
  Modelled from the spec: \<^verbatim>\<open>ts_tree_cursor_goto_first_child\<close>, "descend to first child
  (named or not); false if no children".
\<close>

definition ts_tree_cursor_goto_first_child ::
  "TSTreeCursor \<Rightarrow> cursor_memory \<Rightarrow> fault + bool \<times> cursor_memory" where
  "ts_tree_cursor_goto_first_child c m =
     (if c < length m
      then (let here = current (m ! c)
            in if 0 < ts_node_child_count here
               then Inr (True, m[c := \<lparr>current = here\<lparr>path := path here @ [0]\<rparr>,
                                       ancestors = here # ancestors (m ! c)\<rparr>])
               else Inr (False, m))
      else Inl Undefined_behaviour)"

text \<open>
  Modelled from the spec: \<^verbatim>\<open>ts_tree_cursor_goto_next_sibling\<close>, "move to next sibling at
  current depth; false if current position is the last sibling". The siblings are the
  children of the ancestor on top of the stack; at the node the cursor was seeded at
  there is none within the traversal.
\<close>

definition ts_tree_cursor_goto_next_sibling ::
  "TSTreeCursor \<Rightarrow> cursor_memory \<Rightarrow> fault + bool \<times> cursor_memory" where
  "ts_tree_cursor_goto_next_sibling c m =
     (if c < length m
      then (case ancestors (m ! c) of
              [] \<Rightarrow> Inr (False, m)
            | a # as \<Rightarrow>
                (let here = current (m ! c); i = last (path here)
                 in if path here \<noteq> [] \<and> Suc i < ts_node_child_count a
                    then Inr (True, m[c := \<lparr>current = here\<lparr>path := path a @ [Suc i]\<rparr>,
                                            ancestors = a # as\<rparr>])
                    else Inr (False, m)))
      else Inl Undefined_behaviour)"

subsection \<open>cursor\<close>

text \<open>
  The member functions of \<^verbatim>\<open>class cursor\<close>, each the engine call it forwards to, applied
  to the address of the cursor's own \<^verbatim>\<open>TSTreeCursor\<close>. \<^verbatim>\<open>copy()\<close> returns
  \<^verbatim>\<open>cursor(impl)\<close>, which selects the constructor from \<^verbatim>\<open>const TSTreeCursor &\<close> and so
  \<^verbatim>\<open>ts_tree_cursor_copy\<close>.
\<close>

record cursor =
  impl :: TSTreeCursor

definition node_get_cursor :: "ts_node node \<Rightarrow> cursor_memory \<Rightarrow> cursor \<times> cursor_memory" where
  "node_get_cursor self m =
     (case ts_tree_cursor_new (node.impl self) m of (c, m') \<Rightarrow> (\<lparr>cursor.impl = c\<rparr>, m'))"

definition cursor_reset :: "cursor \<Rightarrow> ts_node node \<Rightarrow> cursor_memory \<Rightarrow> fault + cursor_memory" where
  "cursor_reset self n m = ts_tree_cursor_reset (cursor.impl self) (node.impl n) m"

definition cursor_copy :: "cursor \<Rightarrow> cursor_memory \<Rightarrow> fault + cursor \<times> cursor_memory" where
  "cursor_copy self m =
     (case ts_tree_cursor_copy (cursor.impl self) m of
        Inl f \<Rightarrow> Inl f
      | Inr (c, m') \<Rightarrow> Inr (\<lparr>cursor.impl = c\<rparr>, m'))"

definition cursor_get_current_node :: "cursor \<Rightarrow> cursor_memory \<Rightarrow> fault + ts_node node" where
  "cursor_get_current_node self m =
     (case ts_tree_cursor_current_node (cursor.impl self) m of
        Inl f \<Rightarrow> Inl f
      | Inr n \<Rightarrow> Inr \<lparr>node.impl = n\<rparr>)"

definition cursor_goto_parent :: "cursor \<Rightarrow> cursor_memory \<Rightarrow> fault + bool \<times> cursor_memory" where
  "cursor_goto_parent self m = ts_tree_cursor_goto_parent (cursor.impl self) m"

definition cursor_goto_next_sibling ::
  "cursor \<Rightarrow> cursor_memory \<Rightarrow> fault + bool \<times> cursor_memory" where
  "cursor_goto_next_sibling self m = ts_tree_cursor_goto_next_sibling (cursor.impl self) m"

definition cursor_goto_first_child ::
  "cursor \<Rightarrow> cursor_memory \<Rightarrow> fault + bool \<times> cursor_memory" where
  "cursor_goto_first_child self m = ts_tree_cursor_goto_first_child (cursor.impl self) m"

text \<open>A sequence of navigation calls on one cursor, their boolean answers dropped.\<close>

datatype navigation = Goto_first_child | Goto_next_sibling | Goto_parent

fun navigate :: "navigation \<Rightarrow> cursor \<Rightarrow> cursor_memory \<Rightarrow> fault + bool \<times> cursor_memory" where
  "navigate Goto_first_child c m = cursor_goto_first_child c m"
| "navigate Goto_next_sibling c m = cursor_goto_next_sibling c m"
| "navigate Goto_parent c m = cursor_goto_parent c m"

fun navigate_all :: "navigation list \<Rightarrow> cursor \<Rightarrow> cursor_memory \<Rightarrow> fault + cursor_memory" where
  "navigate_all [] c m = Inr m"
| "navigate_all (s # ss) c m =
     (case navigate s c m of Inl f \<Rightarrow> Inl f | Inr (moved, m') \<Rightarrow> navigate_all ss c m')"

text \<open>The tree \<open>(a (b) (c))\<close> of the specification's scenario, and its nodes.\<close>

definition abc_tree :: subtree where
  "abc_tree = Subtree ''a'' [Subtree ''b'' [], Subtree ''c'' []]"

definition abc_node :: "nat list \<Rightarrow> ts_node node" where
  "abc_node p = \<lparr>node.impl = \<lparr>root = abc_tree, path = p\<rparr>\<rparr>"

section \<open>Properties of the wrapper\<close>

text \<open>
  C3. For every tree, \<^verbatim>\<open>tree.has_error()\<close> is \<^verbatim>\<open>tree.get_root_node().has_error()\<close>:
  whatever obtaining the root node does (a root node, or the fault of reading through a
  null tree pointer), \<^verbatim>\<open>has_error\<close> does the same and then answers with the root
  node's error flag.
\<close>

theorem tree_has_error_is_root_has_error:
  "tree_has_error E t = map_sum id (node_has_error E) (tree_get_root_node E t)"
  by (simp add: tree_has_error_def split: sum.split)

text \<open>
  C4, as amended. \<^verbatim>\<open>get_source_range(buffer)\<close> slices the caller's buffer with
  \<^verbatim>\<open>std::string_view::substr\<close>, which does validate the start of the range against the
  buffer it is given. With \<open>s\<close> and \<open>e\<close> the start and end of the node's byte range:
  when \<open>s\<close> is beyond the buffer's length the call throws \<^verbatim>\<open>std::out_of_range\<close>; when
  \<open>s \<le> e\<close> and \<open>e\<close> is within the buffer the result is exactly the bytes from \<open>s\<close>
  (inclusive) to \<open>e\<close> (exclusive); when \<open>s\<close> is within the buffer and \<open>e\<close> beyond it the
  result is cut at the buffer's end.
\<close>

theorem get_source_range_slices_with_substr:
  fixes E :: "('l, 'n, 't, 'p) engine"
  defines "s \<equiv> \<lambda>n. unat (start (node_get_byte_range E n))"
      and "e \<equiv> \<lambda>n. unat (finish (node_get_byte_range E n))"
  shows "(length buf < s n \<longrightarrow> node_get_source_range E n buf = Inl Out_of_range) \<and>
         (s n \<le> e n \<and> e n \<le> length buf \<longrightarrow>
            node_get_source_range E n buf = Inr (take (e n - s n) (drop (s n) buf))) \<and>
         (s n \<le> length buf \<and> length buf < e n \<longrightarrow>
            node_get_source_range E n buf = Inr (drop (s n) buf))"
  unfolding s_def e_def
  by (auto simp add: node_get_source_range_def node_get_byte_range_def substr_def Let_def
      unat_sub word_le_nat_alt min_def)

theorem get_source_range_slices_with_substr_witness:
  "node_get_source_range flat_engine \<lparr>node.impl = (7, 9)\<rparr> ''abcd'' = Inl Out_of_range \<and>
   node_get_source_range flat_engine \<lparr>node.impl = (1, 3)\<rparr> ''abcd'' = Inr ''bc'' \<and>
   node_get_source_range flat_engine \<lparr>node.impl = (2, 9)\<rparr> ''abcd'' = Inr ''cd''"
  using get_source_range_slices_with_substr
          [where E = flat_engine and n = "\<lparr>node.impl = (7, 9)\<rparr>" and buf = "''abcd''"]
    get_source_range_slices_with_substr
          [where E = flat_engine and n = "\<lparr>node.impl = (1, 3)\<rparr>" and buf = "''abcd''"]
    get_source_range_slices_with_substr
          [where E = flat_engine and n = "\<lparr>node.impl = (2, 9)\<rparr>" and buf = "''abcd''"]
  by (simp add: node_get_byte_range_def flat_engine_def)

text \<open>
  The claim as stated fails: a node with byte range \<open>[5, 8)\<close>, sliced out of the
  three-byte buffer \<open>abc\<close> (not the buffer it was parsed from), is an error, not a
  meaningless text.
\<close>

theorem get_source_range_short_buffer_throws:
  "node_get_source_range flat_engine \<lparr>node.impl = (5, 8)\<rparr> ''abc'' = Inl Out_of_range"
  by (simp add: node_get_source_range_def node_get_byte_range_def substr_def flat_engine_def)

text \<open>
  C10, as amended. \<^verbatim>\<open>language.get_symbol_for_name\<close>, \<^verbatim>\<open>node.get_child_by_field_name\<close>
  and \<^verbatim>\<open>parser.parse_string\<close> take the address of the first byte of their string
  argument: on the empty argument each is undefined behaviour, and on a non-empty
  argument shorter than \<open>2 ^ 32\<close> bytes each hands the engine the argument's bytes with
  exactly the argument's length. (The length is passed as a \<^verbatim>\<open>uint32_t\<close>.)
\<close>

theorem string_arguments_reach_the_engine:
  "(name = [] \<longrightarrow>
      language_get_symbol_for_name E l name isNamed = Inl Undefined_behaviour \<and>
      node_get_child_by_field_name E n name = Inl Undefined_behaviour \<and>
      parser_parse_string E p name = Inl Undefined_behaviour) \<and>
   (name \<noteq> [] \<and> length name < 2 ^ 32 \<longrightarrow>
      unat (static_cast_uint32 (length name)) = length name \<and>
      language_get_symbol_for_name E l name isNamed =
        Inr (ts_language_symbol_for_name E (language.impl l) name
               (static_cast_uint32 (length name)) isNamed) \<and>
      node_get_child_by_field_name E n name =
        Inr \<lparr>node.impl = ts_node_child_by_field_name E (node.impl n) name
               (static_cast_uint32 (length name))\<rparr> \<and>
      parser_parse_string E p name =
        Inr \<lparr>tree.impl = ts_parser_parse_string E (parser.impl p) None name
               (static_cast_uint32 (length name))\<rparr>)"
  by (simp add: language_get_symbol_for_name_def node_get_child_by_field_name_def
      parser_parse_string_def front_address_def static_cast_uint32_def unat_of_nat)

theorem string_arguments_reach_the_engine_witness:
  "language_get_symbol_for_name flat_engine \<lparr>language.impl = ()\<rparr> [] True = Inl Undefined_behaviour \<and>
   unat (static_cast_uint32 (length ''body'')) = 4 \<and>
   node_get_child_by_field_name flat_engine \<lparr>node.impl = (0, 9)\<rparr> ''body'' =
     Inr \<lparr>node.impl = (0, 0)\<rparr> \<and>
   parser_parse_string flat_engine \<lparr>parser.impl = ()\<rparr> ''body'' = Inr \<lparr>tree.impl = Some 4\<rparr>"
  using string_arguments_reach_the_engine
          [where name = "[]" and E = flat_engine and l = "\<lparr>language.impl = ()\<rparr>"
             and isNamed = True and n = "\<lparr>node.impl = (0, 9)\<rparr>"
             and p = "\<lparr>parser.impl = ()\<rparr>"]
    string_arguments_reach_the_engine
          [where name = "''body''" and E = flat_engine and l = "\<lparr>language.impl = ()\<rparr>"
             and isNamed = True and n = "\<lparr>node.impl = (0, 9)\<rparr>"
             and p = "\<lparr>parser.impl = ()\<rparr>"]
  by (simp add: flat_engine_def static_cast_uint32_def)

text \<open>
  The claim as stated fails for long arguments: of a buffer of \<open>2 ^ 32\<close> bytes, which is
  not empty, the engine is told to read none.
\<close>

theorem parse_string_truncates_the_length:
  "replicate (2 ^ 32) CHR ''a'' \<noteq> [] \<and>
   length (replicate (2 ^ 32) CHR ''a'') = 2 ^ 32 \<and>
   static_cast_uint32 (length (replicate (2 ^ 32) CHR ''a'')) = 0 \<and>
   parser_parse_string flat_engine \<lparr>parser.impl = ()\<rparr> (replicate (2 ^ 32) CHR ''a'') =
     Inr \<lparr>tree.impl = Some 0\<rparr>"
  by (simp add: parser_parse_string_def front_address_def static_cast_uint32_def flat_engine_def)

text \<open>
  C2, at the empty buffer. \<^verbatim>\<open>parse_string\<close> evaluates \<^verbatim>\<open>&buffer.front()\<close> before it
  calls the engine; on the empty buffer that is undefined behaviour, so no tree with a
  root spanning \<open>[0, 0]\<close> is promised.
\<close>

theorem parse_string_empty_buffer_is_undefined:
  "parser_parse_string E p [] = Inl Undefined_behaviour"
  by (simp add: parser_parse_string_def front_address_def)

text \<open>
  C9, where the engine reports no field. The engine answers \<^verbatim>\<open>get_field_name_for_child\<close>
  with a null \<^verbatim>\<open>const char *\<close> when the child has no field name; the member function
  converts the pointer to a \<^verbatim>\<open>std::string_view\<close>, which is undefined behaviour for the
  null pointer, not an empty text.
\<close>

theorem get_field_name_for_child_null_is_undefined:
  "node_get_field_name_for_child (E\<lparr>ts_node_field_name_for_child := \<lambda>n i. None\<rparr>) self i =
     Inl Undefined_behaviour"
  by (simp add: node_get_field_name_for_child_def string_view_of_c_str_def)

section \<open>Ownership: every engine tree is released exactly once\<close>




























section \<open>The cursor as modelled from the specification\<close>

lemma navigate_frame:
  assumes "cursor.impl c < length m"
  shows "\<exists>b m'. navigate s c m = Inr (b, m') \<and> length m' = length m \<and>
           (\<forall>d. d \<noteq> cursor.impl c \<longrightarrow> m' ! d = m ! d)"
  using assms
  by (cases s)
    (auto simp add: cursor_goto_first_child_def cursor_goto_next_sibling_def
      cursor_goto_parent_def ts_tree_cursor_goto_first_child_def
      ts_tree_cursor_goto_next_sibling_def ts_tree_cursor_goto_parent_def Let_def
      split: list.splits)

lemma navigate_all_frame:
  assumes "cursor.impl c < length m"
  shows "\<exists>m'. navigate_all ss c m = Inr m' \<and> length m' = length m \<and>
           (\<forall>d. d \<noteq> cursor.impl c \<longrightarrow> m' ! d = m ! d)"
  using assms
proof (induction ss arbitrary: m)
  case Nil
  then show ?case by simp
next
  case (Cons s ss)
  from navigate_frame [OF Cons.prems, of s] obtain b m1 where
    s1: "navigate s c m = Inr (b, m1)" and l1: "length m1 = length m"
    and f1: "\<forall>d. d \<noteq> cursor.impl c \<longrightarrow> m1 ! d = m ! d" by blast
  have "cursor.impl c < length m1" using Cons.prems l1 by simp
  from Cons.IH [OF this] obtain m2 where
    s2: "navigate_all ss c m1 = Inr m2" and l2: "length m2 = length m1"
    and f2: "\<forall>d. d \<noteq> cursor.impl c \<longrightarrow> m2 ! d = m1 ! d" by blast
  show ?case using s1 s2 l1 l2 f1 f2 by simp
qed

text \<open>A navigation call reads and writes only the state of the cursor it is called on.\<close>

lemma navigate_same:
  assumes "cursor.impl c < length m" "cursor.impl c' < length m'"
      and "m ! cursor.impl c = m' ! cursor.impl c'"
  shows "\<exists>b m1 m1'. navigate s c m = Inr (b, m1) \<and> navigate s c' m' = Inr (b, m1') \<and>
           length m1 = length m \<and> length m1' = length m' \<and>
           m1 ! cursor.impl c = m1' ! cursor.impl c'"
  using assms
  by (cases s)
    (auto simp add: cursor_goto_first_child_def cursor_goto_next_sibling_def
      cursor_goto_parent_def ts_tree_cursor_goto_first_child_def
      ts_tree_cursor_goto_next_sibling_def ts_tree_cursor_goto_parent_def Let_def
      split: list.splits)

lemma navigate_all_same:
  assumes "cursor.impl c < length m" "cursor.impl c' < length m'"
      and "m ! cursor.impl c = m' ! cursor.impl c'"
  shows "\<exists>m2 m2'. navigate_all ss c m = Inr m2 \<and> navigate_all ss c' m' = Inr m2' \<and>
           m2 ! cursor.impl c = m2' ! cursor.impl c'"
  using assms
proof (induction ss arbitrary: m m')
  case Nil
  then show ?case by simp
next
  case (Cons s ss)
  from navigate_same [OF Cons.prems, of s] obtain b m1 m1' where
    s1: "navigate s c m = Inr (b, m1)" and s1': "navigate s c' m' = Inr (b, m1')"
    and l1: "length m1 = length m" and l1': "length m1' = length m'"
    and e1: "m1 ! cursor.impl c = m1' ! cursor.impl c'" by blast
  have "cursor.impl c < length m1" "cursor.impl c' < length m1'"
    using Cons.prems l1 l1' by simp_all
  from Cons.IH [OF this e1] show ?case using s1 s1' by simp
qed

lemma abc_descend:
  "navigate_all [Goto_first_child] (fst (node_get_cursor (abc_node []) []))
     (snd (node_get_cursor (abc_node []) [])) =
   Inr [\<lparr>current = node.impl (abc_node [0]), ancestors = [node.impl (abc_node [])]\<rparr>]"
  by (simp add: cursor_goto_first_child_def ts_tree_cursor_goto_first_child_def
      node_get_cursor_def ts_tree_cursor_new_def
      ts_node_child_count_def abc_node_def abc_tree_def Let_def)

lemma abc_walk:
  "navigate_all [Goto_next_sibling, Goto_parent] \<lparr>cursor.impl = 1\<rparr>
     [\<lparr>current = node.impl (abc_node [0]), ancestors = [node.impl (abc_node [])]\<rparr>,
      \<lparr>current = node.impl (abc_node [0]), ancestors = [node.impl (abc_node [])]\<rparr>] =
   Inr [\<lparr>current = node.impl (abc_node [0]), ancestors = [node.impl (abc_node [])]\<rparr>,
        \<lparr>current = node.impl (abc_node []), ancestors = []\<rparr>]"
  by (simp add: cursor_goto_next_sibling_def cursor_goto_parent_def
      ts_tree_cursor_goto_next_sibling_def ts_tree_cursor_goto_parent_def
      ts_node_child_count_def abc_node_def abc_tree_def Let_def)

text \<open>
  C5. For every cursor in memory and every node \<open>n\<close>: after \<^verbatim>\<open>reset(n)\<close>, an immediate
  \<^verbatim>\<open>goto_parent()\<close> succeeds as a call, answers false and leaves the memory as it was,
  with the current node still \<open>n\<close>. Nothing is asked of \<open>n\<close>: it may lie anywhere in its
  tree, below ancestors. The same holds of the cursor \<^verbatim>\<open>n.get_cursor()\<close> seeds at \<open>n\<close>.
\<close>

theorem reset_then_goto_parent_stays:
  assumes "cursor.impl c < length m"
  shows "(\<exists>m1. cursor_reset c n m = Inr m1 \<and>
            cursor_goto_parent c m1 = Inr (False, m1) \<and>
            cursor_get_current_node c m1 = Inr n) \<and>
         cursor_goto_parent (fst (node_get_cursor n m)) (snd (node_get_cursor n m)) =
           Inr (False, snd (node_get_cursor n m)) \<and>
         cursor_get_current_node (fst (node_get_cursor n m)) (snd (node_get_cursor n m)) = Inr n"
  using assms
  by (simp add: cursor_reset_def cursor_goto_parent_def cursor_get_current_node_def
      ts_tree_cursor_reset_def ts_tree_cursor_goto_parent_def ts_tree_cursor_current_node_def
      node_get_cursor_def ts_tree_cursor_new_def)

theorem reset_then_goto_parent_stays_witness:
  "cursor.impl (fst (node_get_cursor (abc_node []) [])) < length (snd (node_get_cursor (abc_node []) [])) \<and>
   subtree_at abc_tree [1] = Some (Subtree ''c'' []) \<and>
   (\<exists>m1. cursor_reset (fst (node_get_cursor (abc_node []) [])) (abc_node [1])
            (snd (node_get_cursor (abc_node []) [])) = Inr m1 \<and>
          cursor_goto_parent (fst (node_get_cursor (abc_node []) [])) m1 = Inr (False, m1) \<and>
          cursor_get_current_node (fst (node_get_cursor (abc_node []) [])) m1 = Inr (abc_node [1]))"
proof -
  have ex: "cursor.impl (fst (node_get_cursor (abc_node []) []))
              < length (snd (node_get_cursor (abc_node []) []))"
    by (simp add: node_get_cursor_def ts_tree_cursor_new_def)
  have "subtree_at abc_tree [1] = Some (Subtree ''c'' [])" by (simp add: abc_tree_def)
  then show ?thesis using ex reset_then_goto_parent_stays [OF ex, of "abc_node [1]"] by simp
qed

text \<open>
  C6. For every cursor \<open>c\<close> in memory, \<^verbatim>\<open>c.copy()\<close> succeeds and yields a cursor distinct
  from \<open>c\<close> whose whole traversal state, the current node and the stack of ancestors, is
  that of \<open>c\<close>, leaving the state of \<open>c\<close> as it was. Every sequence of
  \<^verbatim>\<open>goto_first_child\<close>, \<^verbatim>\<open>goto_next_sibling\<close> and \<^verbatim>\<open>goto_parent\<close> calls on the copy runs
  to its end, leaves the state of \<open>c\<close>, and so its current node, what it was, and takes
  the copy to the state the same calls would have taken \<open>c\<close> to.
\<close>

theorem copy_is_independent:
  assumes "cursor.impl c < length m"
  shows "\<exists>c' m1 m2 m3.
           cursor_copy c m = Inr (c', m1) \<and>
           cursor.impl c' \<noteq> cursor.impl c \<and> cursor.impl c' < length m1 \<and>
           m1 ! cursor.impl c' = m ! cursor.impl c \<and>
           m1 ! cursor.impl c = m ! cursor.impl c \<and>
           cursor_get_current_node c' m1 = cursor_get_current_node c m \<and>
           navigate_all ss c' m1 = Inr m2 \<and>
           m2 ! cursor.impl c = m ! cursor.impl c \<and>
           cursor_get_current_node c m2 = cursor_get_current_node c m \<and>
           navigate_all ss c m = Inr m3 \<and>
           m2 ! cursor.impl c' = m3 ! cursor.impl c"
proof -
  let ?c' = "\<lparr>cursor.impl = length m\<rparr>"
  let ?m1 = "m @ [m ! cursor.impl c]"
  have cp: "cursor_copy c m = Inr (?c', ?m1)"
    using assms by (simp add: cursor_copy_def ts_tree_cursor_copy_def)
  have fresh: "cursor.impl ?c' \<noteq> cursor.impl c" using assms by simp
  have live: "cursor.impl ?c' < length ?m1" by simp
  have same: "?m1 ! cursor.impl ?c' = m ! cursor.impl c" by simp
  have kept: "?m1 ! cursor.impl c = m ! cursor.impl c" using assms by (simp add: nth_append)
  have cur: "cursor_get_current_node ?c' ?m1 = cursor_get_current_node c m"
    using assms by (simp add: cursor_get_current_node_def ts_tree_cursor_current_node_def)
  from navigate_all_frame [OF live, of ss] obtain m2 where
    nav: "navigate_all ss ?c' ?m1 = Inr m2" and len: "length m2 = length ?m1"
    and fr: "\<forall>d. d \<noteq> cursor.impl ?c' \<longrightarrow> m2 ! d = ?m1 ! d" by blast
  have still: "m2 ! cursor.impl c = m ! cursor.impl c"
    using fr fresh kept by simp
  then have still_cur: "cursor_get_current_node c m2 = cursor_get_current_node c m"
    using assms len by (simp add: cursor_get_current_node_def ts_tree_cursor_current_node_def)
  from navigate_all_same [OF live assms same, of ss] obtain m2' m3 where
    nav': "navigate_all ss ?c' ?m1 = Inr m2'" and nav3: "navigate_all ss c m = Inr m3"
    and eq: "m2' ! cursor.impl ?c' = m3 ! cursor.impl c" by blast
  have "m2' = m2" using nav nav' by simp
  then have "m2 ! cursor.impl ?c' = m3 ! cursor.impl c" using eq by simp
  then show ?thesis using cp fresh live same kept cur nav still still_cur nav3 by blast
qed

text \<open>
  A cursor seeded at the root of \<open>(a (b) (c))\<close> and moved to \<open>b\<close> is copied. The copy
  can go on to \<open>c\<close> and then up to \<open>a\<close>, which a cursor newly seeded at \<open>b\<close> could not;
  the original stays at \<open>b\<close>.
\<close>

theorem copy_is_independent_witness:
  "navigate_all [Goto_first_child] (fst (node_get_cursor (abc_node []) []))
     (snd (node_get_cursor (abc_node []) [])) =
     Inr [\<lparr>current = node.impl (abc_node [0]), ancestors = [node.impl (abc_node [])]\<rparr>] \<and>
   cursor_copy \<lparr>cursor.impl = 0\<rparr>
     [\<lparr>current = node.impl (abc_node [0]), ancestors = [node.impl (abc_node [])]\<rparr>] =
     Inr (\<lparr>cursor.impl = 1\<rparr>,
          [\<lparr>current = node.impl (abc_node [0]), ancestors = [node.impl (abc_node [])]\<rparr>,
           \<lparr>current = node.impl (abc_node [0]), ancestors = [node.impl (abc_node [])]\<rparr>]) \<and>
   (\<exists>m2. navigate_all [Goto_next_sibling, Goto_parent] \<lparr>cursor.impl = 1\<rparr>
            [\<lparr>current = node.impl (abc_node [0]), ancestors = [node.impl (abc_node [])]\<rparr>,
             \<lparr>current = node.impl (abc_node [0]), ancestors = [node.impl (abc_node [])]\<rparr>]
            = Inr m2 \<and>
          cursor_get_current_node \<lparr>cursor.impl = 1\<rparr> m2 = Inr (abc_node []) \<and>
          cursor_get_current_node \<lparr>cursor.impl = 0\<rparr> m2 = Inr (abc_node [0]))"
proof -
  let ?p = "\<lparr>current = node.impl (abc_node [0]), ancestors = [node.impl (abc_node [])]\<rparr>"
  let ?m = "[?p]"
  have ex: "cursor.impl \<lparr>cursor.impl = 0\<rparr> < length ?m" by simp
  have cp: "cursor_copy \<lparr>cursor.impl = 0\<rparr> ?m = Inr (\<lparr>cursor.impl = 1\<rparr>, ?m @ ?m)"
    by (simp add: cursor_copy_def ts_tree_cursor_copy_def)
  have cur: "cursor_get_current_node \<lparr>cursor.impl = 0\<rparr> ?m = Inr (abc_node [0])"
    by (simp add: cursor_get_current_node_def ts_tree_cursor_current_node_def abc_node_def)
  from copy_is_independent [OF ex, of "[Goto_next_sibling, Goto_parent]"]
  obtain m2 where nav: "navigate_all [Goto_next_sibling, Goto_parent] \<lparr>cursor.impl = 1\<rparr>
            (?m @ ?m) = Inr m2"
    and keep: "cursor_get_current_node \<lparr>cursor.impl = 0\<rparr> m2 = Inr (abc_node [0])"
    using cp cur by auto
  have "cursor_get_current_node \<lparr>cursor.impl = 1\<rparr> m2 = Inr (abc_node [])"
    using nav abc_walk
    by (auto simp add: cursor_get_current_node_def ts_tree_cursor_current_node_def abc_node_def)
  then show ?thesis using abc_descend cp nav keep by auto
qed

end
